theory Spec2Isabelle
  imports Complex_Main
begin

section \<open>The values a fetched payload can take\<close>

text \<open>
  The component stores whatever \<^verbatim>\<open>response.json()\<close> resolves to, with no validation,
  so the payload is an arbitrary JavaScript value and not only a value of the declared
  interface \<^verbatim>\<open>User\<close>. The values are those of JSON, and \<^verbatim>\<open>undefined\<close> and
  \<^verbatim>\<open>NaN\<close>, which a stubbed \<^verbatim>\<open>fetch\<close> can deliver.

  A number is \<^verbatim>\<open>NaN\<close>, an infinity, the negative zero or a finite value (every finite
  double is a rational; the component computes nothing with numbers, so rounding is not
  part of the model). An object is the list of its \<^verbatim>\<open>key: value\<close> entries in the order
  they are written; as in an object literal and in JSON text, a later entry for a key
  replaces an earlier one.
\<close>

datatype jsnum = NaN | NegZero | PosInf | NegInf | Fin rat

datatype jsval =
    Undefined
  | Null
  | JBool bool
  | JNum jsnum
  | JStr string
  | JArr "jsval list"
  | JObj "(string \<times> jsval) list"

text \<open>
  \<^verbatim>\<open>ToBoolean\<close>, the test behind \<^verbatim>\<open>!user\<close> and behind the left operand of
  \<^verbatim>\<open>&&\<close>: \<^verbatim>\<open>undefined\<close>, \<^verbatim>\<open>null\<close>, \<^verbatim>\<open>false\<close>, \<^verbatim>\<open>0\<close>, \<^verbatim>\<open>-0\<close>,
  \<^verbatim>\<open>NaN\<close> and the empty string are falsy, every other value is truthy.
\<close>

fun truthy :: "jsval \<Rightarrow> bool" where
  "truthy Undefined = False"
| "truthy Null = False"
| "truthy (JBool b) = b"
| "truthy (JNum n) = (n \<noteq> NaN \<and> n \<noteq> NegZero \<and> n \<noteq> Fin 0)"
| "truthy (JStr s) = (s \<noteq> [])"
| "truthy (JArr xs) = True"
| "truthy (JObj kvs) = True"

text \<open>
  The faults of an execution: the \<^verbatim>\<open>TypeError\<close> of a read on \<^verbatim>\<open>undefined\<close> or
  \<^verbatim>\<open>null\<close>, the \<^verbatim>\<open>SyntaxError\<close> of a body that does not parse, the failure of the
  request, and the error React throws for a child it cannot render.
\<close>

datatype error = TypeError | SyntaxError | NetworkError | InvalidChild

text \<open>
  The property read \<^verbatim>\<open>v.k\<close>. On \<^verbatim>\<open>undefined\<close> and \<^verbatim>\<open>null\<close> it throws a
  \<^verbatim>\<open>TypeError\<close>; on an object it is the value stored under the key, or
  \<^verbatim>\<open>undefined\<close> when the key is absent; on a boolean, a number, a string or an array
  it is \<^verbatim>\<open>undefined\<close> for each name the component reads (\<^verbatim>\<open>id\<close>,
  \<^verbatim>\<open>firstName\<close>, \<^verbatim>\<open>lastName\<close>, \<^verbatim>\<open>address\<close>, \<^verbatim>\<open>street\<close>), none of which a
  built-in prototype defines. The function is the read for these names.
\<close>

fun get_prop :: "jsval \<Rightarrow> string \<Rightarrow> error + jsval" where
  "get_prop Undefined k = Inl TypeError"
| "get_prop Null k = Inl TypeError"
| "get_prop (JObj kvs) k =
     Inr (case map_of (rev kvs) k of None \<Rightarrow> Undefined | Some v \<Rightarrow> v)"
| "get_prop (JBool b) k = Inr Undefined"
| "get_prop (JNum n) k = Inr Undefined"
| "get_prop (JStr s) k = Inr Undefined"
| "get_prop (JArr xs) k = Inr Undefined"

text \<open>The expression \<^verbatim>\<open>user.address.street\<close> of line 46: two reads, left to right.\<close>

definition address_street :: "jsval \<Rightarrow> error + jsval" where
  "address_street u =
     (case get_prop u ''address'' of
        Inl e \<Rightarrow> Inl e
      | Inr a \<Rightarrow> get_prop a ''street'')"

section \<open>The element tree the component returns\<close>

text \<open>
  A JSX element is its tag and its children; a child is an element, literal text, or the
  value of an expression in braces. The tree is what the component function hands to
  React.
\<close>

datatype node =
    Elem string "node list"
  | Text string
  | Val jsval

definition loading_view :: node where
  "loading_view = Elem ''div'' [Text ''Loading...'']"

definition empty_view :: node where
  "empty_view = Elem ''div'' [Text ''No user found'']"

text \<open>Lines 41 to 47, with the last child left open: it is the value of the \<^verbatim>\<open>&&\<close>.\<close>

definition loaded_view :: "jsval \<Rightarrow> jsval \<Rightarrow> jsval \<Rightarrow> node \<Rightarrow> node" where
  "loaded_view i f l c =
     Elem ''div''
       [Elem ''h1'' [Text ''User Info''],
        Elem ''p'' [Text ''ID: '', Val i],
        Elem ''p'' [Text ''Name: '', Val f],
        Elem ''p'' [Text ''Name: '', Val l],
        c]"

definition street_line :: "jsval \<Rightarrow> node" where
  "street_line s = Elem ''p'' [Text ''Address: '', Val s]"

text \<open>
  The street lines of a tree: the children of the root that are a paragraph starting with
  the text \<^verbatim>\<open>Address: \<close>.
\<close>

fun is_street_line :: "node \<Rightarrow> bool" where
  "is_street_line (Elem t (Text l # cs)) = (t = ''p'' \<and> l = ''Address: '')"
| "is_street_line n = False"

fun street_lines :: "node \<Rightarrow> node list" where
  "street_lines (Elem t cs) = filter is_street_line cs"
| "street_lines n = []"

text \<open>
  The component puts the stored values into the tree as they are (lines 43 to 46), and
  React decides what a value in child position becomes. A string or a number becomes text;
  \<^verbatim>\<open>undefined\<close>, \<^verbatim>\<open>null\<close> and the booleans become nothing; an array is rendered
  item by item; a plain object is refused with the error
  \<^verbatim>\<open>Objects are not valid as a React child\<close>, and then nothing of the tree is rendered.
  \<open>renderable\<close> is that check on a value, \<open>mountable\<close> the check on a whole tree.
\<close>

fun renderable :: "jsval \<Rightarrow> bool" where
  "renderable (JObj kvs) = False"
| "renderable (JArr xs) = list_all renderable xs"
| "renderable Undefined = True"
| "renderable Null = True"
| "renderable (JBool b) = True"
| "renderable (JNum n) = True"
| "renderable (JStr s) = True"

fun mountable :: "node \<Rightarrow> bool" where
  "mountable (Elem t cs) = list_all mountable cs"
| "mountable (Text s) = True"
| "mountable (Val v) = renderable v"

section \<open>The component\<close>

text \<open>
  The state of one mounted component: the two \<^verbatim>\<open>useState\<close> cells of lines 16 and 17,
  and what the runtime keeps for it: whether the effect of line 19 has run, the requests
  issued so far, where \<^verbatim>\<open>fetchUser\<close> is suspended, and the rejections nothing handled.
\<close>

datatype phase = Idle | AwaitFetch | AwaitJson | Finished

record component =
  user :: jsval
  isLoading :: bool
  effect_ran :: bool
  requests :: "string list"
  pending :: phase
  unhandled :: "error list"

definition initial :: component where
  "initial = \<lparr>user = Null, isLoading = True, effect_ran = False, requests = [],
              pending = Idle, unhandled = []\<rparr>"

text \<open>
  The Loaded branch, lines 40 to 48. The children are evaluated in order; line 46 reads
  \<^verbatim>\<open>user.address.street\<close> once for the test and, when it is truthy, once more for
  the paragraph. \<^verbatim>\<open>a && b\<close> is \<^verbatim>\<open>a\<close> when \<^verbatim>\<open>a\<close> is falsy, else \<^verbatim>\<open>b\<close>.
\<close>

definition render_loaded :: "jsval \<Rightarrow> error + node" where
  "render_loaded u =
     (case get_prop u ''id'' of
        Inl e \<Rightarrow> Inl e
      | Inr i \<Rightarrow>
          (case get_prop u ''firstName'' of
             Inl e \<Rightarrow> Inl e
           | Inr f \<Rightarrow>
               (case get_prop u ''lastName'' of
                  Inl e \<Rightarrow> Inl e
                | Inr l \<Rightarrow>
                    (case address_street u of
                       Inl e \<Rightarrow> Inl e
                     | Inr s \<Rightarrow>
                         (if truthy s
                          then (case address_street u of
                                  Inl e \<Rightarrow> Inl e
                                | Inr s' \<Rightarrow> Inr (loaded_view i f l (street_line s')))
                          else Inr (loaded_view i f l (Val s)))))))"

text \<open>The body of the component from line 32 on: what one render returns or throws.\<close>

definition User :: "component \<Rightarrow> error + node" where
  "User w =
     (if isLoading w then Inr loading_view
      else if \<not> truthy (user w) then Inr empty_view
      else render_loaded (user w))"

text \<open>
  One render as the host sees it: the fault the component body throws, or the fault of a
  child React refuses, or the tree that is rendered.
\<close>

definition rendered :: "component \<Rightarrow> error + node" where
  "rendered w =
     (case User w of
        Inl e \<Rightarrow> Inl e
      | Inr t \<Rightarrow> if mountable t then Inr t else Inl InvalidChild)"

text \<open>The street lines of the rendered output; a render that faults shows none.\<close>

fun shown_street_lines :: "error + node \<Rightarrow> node list" where
  "shown_street_lines (Inl e) = []"
| "shown_street_lines (Inr t) = street_lines t"

text \<open>
  \<^verbatim>\<open>fetchUser\<close>, lines 20 to 26, cut at its two \<^verbatim>\<open>await\<close>s. The first part runs
  inside the effect and issues the request. The second runs when the request is
  fulfilled and calls \<^verbatim>\<open>response.json()\<close>. The third runs when the body is parsed
  and stores the data. There is no \<^verbatim>\<open>try\<close> and the promise \<^verbatim>\<open>fetchUser()\<close>
  returns is dropped at line 28, so a rejection of either awaited promise ends the
  function, writes no state and reaches no handler.
\<close>

definition fetchUser_begin :: "component \<Rightarrow> component" where
  "fetchUser_begin w =
     w\<lparr>isLoading := True, requests := requests w @ [''/api/user''], pending := AwaitFetch\<rparr>"

definition fetchUser_response :: "component \<Rightarrow> component" where
  "fetchUser_response w = w\<lparr>pending := AwaitJson\<rparr>"

definition fetchUser_data :: "jsval \<Rightarrow> component \<Rightarrow> component" where
  "fetchUser_data d w = w\<lparr>user := d, isLoading := False, pending := Finished\<rparr>"

definition fetchUser_rejected :: "error \<Rightarrow> component \<Rightarrow> component" where
  "fetchUser_rejected e w = w\<lparr>pending := Finished, unhandled := unhandled w @ [e]\<rparr>"

text \<open>
  The effect of lines 19 to 29 has the dependency list \<^verbatim>\<open>[]\<close>: the commit after the
  first render runs it, the commit after any later render skips it.
\<close>

definition commit :: "component \<Rightarrow> component" where
  "commit w = (if effect_ran w then w else fetchUser_begin (w\<lparr>effect_ran := True\<rparr>))"

definition mount :: component where
  "mount = commit initial"

text \<open>
  What can happen to a mounted component: a re-render (its parent rendered again), or one
  of the two awaited promises settles. A promise settles once, so a settlement for which
  \<^verbatim>\<open>fetchUser\<close> is not waiting does not occur; \<open>step\<close> leaves the component as it is
  there. Storing the data changes state, so it is followed by a render and its commit.
\<close>

datatype event =
    Rerender
  | FetchFulfilled
  | FetchRejected error
  | JsonFulfilled jsval
  | JsonRejected error

fun step :: "event \<Rightarrow> component \<Rightarrow> component" where
  "step Rerender w = commit w"
| "step FetchFulfilled w = (if pending w = AwaitFetch then fetchUser_response w else w)"
| "step (FetchRejected e) w = (if pending w = AwaitFetch then fetchUser_rejected e w else w)"
| "step (JsonFulfilled d) w = (if pending w = AwaitJson then commit (fetchUser_data d w) else w)"
| "step (JsonRejected e) w = (if pending w = AwaitJson then fetchUser_rejected e w else w)"

fun run :: "component \<Rightarrow> event list \<Rightarrow> component" where
  "run w [] = w"
| "run w (ev # evs) = run (step ev w) evs"

text \<open>
  The executions the claims speak of, each with any number of re-renders between the
  settlements and any events after the last one: the fetch resolves to the payload \<open>p\<close>;
  the request is rejected; the body fails to parse.
\<close>

definition resolves :: "nat \<Rightarrow> nat \<Rightarrow> jsval \<Rightarrow> event list \<Rightarrow> event list" where
  "resolves a b p evs =
     replicate a Rerender @ FetchFulfilled # replicate b Rerender @ JsonFulfilled p # evs"

definition request_rejects :: "nat \<Rightarrow> error \<Rightarrow> event list \<Rightarrow> event list" where
  "request_rejects a e evs = replicate a Rerender @ FetchRejected e # evs"

definition parse_fails :: "nat \<Rightarrow> nat \<Rightarrow> error \<Rightarrow> event list \<Rightarrow> event list" where
  "parse_fails a b e evs =
     replicate a Rerender @ FetchFulfilled # replicate b Rerender @ JsonRejected e # evs"

section \<open>Facts about the executions\<close>

lemma mount_eq:
  "mount = \<lparr>user = Null, isLoading = True, effect_ran = True, requests = [''/api/user''],
            pending = AwaitFetch, unhandled = []\<rparr>"
  by (simp add: mount_def commit_def initial_def fetchUser_begin_def)

lemma commit_after_effect: "effect_ran w \<Longrightarrow> commit w = w"
  by (simp add: commit_def)

lemma run_append: "run w (xs @ ys) = run (run w xs) ys"
  by (induction xs arbitrary: w) simp_all

lemma run_rerenders: "effect_ran w \<Longrightarrow> run w (replicate n Rerender) = w"
  by (induction n) (simp_all add: commit_after_effect)

lemma run_after: "run w (xs @ ev # evs) = run (step ev (run w xs)) evs"
  by (simp add: run_append)

lemma step_finished: "effect_ran w \<Longrightarrow> pending w = Finished \<Longrightarrow> step ev w = w"
  by (cases ev) (simp_all add: commit_after_effect)

lemma run_finished: "effect_ran w \<Longrightarrow> pending w = Finished \<Longrightarrow> run w evs = w"
  by (induction evs) (simp_all add: step_finished)

lemma run_resolves:
  "run mount (resolves a b p evs) =
     \<lparr>user = p, isLoading = False, effect_ran = True, requests = [''/api/user''],
      pending = Finished, unhandled = []\<rparr>"
proof -
  let ?w1 = "\<lparr>user = Null, isLoading = True, effect_ran = True, requests = [''/api/user''],
              pending = AwaitJson, unhandled = []\<rparr>"
  let ?w2 = "\<lparr>user = p, isLoading = False, effect_ran = True, requests = [''/api/user''],
              pending = Finished, unhandled = []\<rparr>"
  have 1: "run mount (replicate a Rerender) = mount"
    by (rule run_rerenders) (simp add: mount_eq)
  have 2: "step FetchFulfilled mount = ?w1"
    by (simp add: mount_eq fetchUser_response_def)
  have 3: "run ?w1 (replicate b Rerender) = ?w1"
    by (rule run_rerenders) simp
  have 4: "step (JsonFulfilled p) ?w1 = ?w2"
    by (simp add: fetchUser_data_def commit_def)
  have 5: "run ?w2 evs = ?w2"
    by (rule run_finished) simp_all
  show ?thesis
    by (simp only: resolves_def run_after 1 2 3 4 5)
qed

lemma run_request_rejects:
  "run mount (request_rejects a e evs) =
     \<lparr>user = Null, isLoading = True, effect_ran = True, requests = [''/api/user''],
      pending = Finished, unhandled = [e]\<rparr>"
proof -
  let ?w = "\<lparr>user = Null, isLoading = True, effect_ran = True, requests = [''/api/user''],
             pending = Finished, unhandled = [e]\<rparr>"
  have 1: "run mount (replicate a Rerender) = mount"
    by (rule run_rerenders) (simp add: mount_eq)
  have 2: "step (FetchRejected e) mount = ?w"
    by (simp add: mount_eq fetchUser_rejected_def)
  have 3: "run ?w evs = ?w"
    by (rule run_finished) simp_all
  show ?thesis
    by (simp only: request_rejects_def run_after 1 2 3)
qed

lemma run_parse_fails:
  "run mount (parse_fails a b e evs) =
     \<lparr>user = Null, isLoading = True, effect_ran = True, requests = [''/api/user''],
      pending = Finished, unhandled = [e]\<rparr>"
proof -
  let ?w1 = "\<lparr>user = Null, isLoading = True, effect_ran = True, requests = [''/api/user''],
              pending = AwaitJson, unhandled = []\<rparr>"
  let ?w2 = "\<lparr>user = Null, isLoading = True, effect_ran = True, requests = [''/api/user''],
              pending = Finished, unhandled = [e]\<rparr>"
  have 1: "run mount (replicate a Rerender) = mount"
    by (rule run_rerenders) (simp add: mount_eq)
  have 2: "step FetchFulfilled mount = ?w1"
    by (simp add: mount_eq fetchUser_response_def)
  have 3: "run ?w1 (replicate b Rerender) = ?w1"
    by (rule run_rerenders) simp
  have 4: "step (JsonRejected e) ?w1 = ?w2"
    by (simp add: fetchUser_rejected_def)
  have 5: "run ?w2 evs = ?w2"
    by (rule run_finished) simp_all
  show ?thesis
    by (simp only: parse_fails_def run_after 1 2 3 4 5)
qed

lemma step_keeps_requests:
  "effect_ran w \<Longrightarrow> effect_ran (step ev w) \<and> requests (step ev w) = requests w"
  by (cases ev)
     (simp_all add: commit_after_effect fetchUser_response_def fetchUser_rejected_def
        fetchUser_data_def)

lemma run_keeps_requests:
  "effect_ran w \<Longrightarrow> requests (run w evs) = requests w"
proof (induction evs arbitrary: w)
  case Nil
  show ?case by simp
next
  case (Cons ev evs)
  from step_keeps_requests [OF Cons.prems, of ev]
  have "effect_ran (step ev w)" and "requests (step ev w) = requests w" by simp_all
  with Cons.IH [of "step ev w"] show ?case by simp
qed

section \<open>Facts about one render\<close>

lemma get_prop_truthy: "truthy u \<Longrightarrow> \<exists>v. get_prop u k = Inr v"
  by (cases u) simp_all

lemma get_prop_present: "a \<noteq> Undefined \<Longrightarrow> a \<noteq> Null \<Longrightarrow> \<exists>v. get_prop a k = Inr v"
  by (cases a) simp_all

lemma render_loaded_value:
  assumes "get_prop u ''id'' = Inr i" and "get_prop u ''firstName'' = Inr f"
    and "get_prop u ''lastName'' = Inr l" and "address_street u = Inr s"
  shows "render_loaded u =
           Inr (loaded_view i f l (if truthy s then street_line s else Val s))"
  using assms by (simp add: render_loaded_def)

lemma render_loaded_fault:
  assumes "truthy u" and "address_street u = Inl e"
  shows "render_loaded u = Inl e"
proof -
  from assms(1) obtain i f l where "get_prop u ''id'' = Inr i"
    "get_prop u ''firstName'' = Inr f" "get_prop u ''lastName'' = Inr l"
    using get_prop_truthy by meson
  with assms(2) show ?thesis by (simp add: render_loaded_def)
qed

lemma street_lines_loaded_view:
  "street_lines (loaded_view i f l (if truthy s then street_line s else Val s)) =
     (if truthy s then [street_line s] else [])"
  by (simp add: loaded_view_def street_line_def)

lemma User_resolved:
  "User (run mount (resolves m n p evs)) = (if truthy p then render_loaded p else Inr empty_view)"
  by (simp add: run_resolves User_def)

lemma mountable_loaded_view:
  "mountable (loaded_view i f l (if truthy s then street_line s else Val s)) =
     (renderable i \<and> renderable f \<and> renderable l \<and> renderable s)"
  by (simp add: loaded_view_def street_line_def)

lemma rendered_resolved:
  "rendered (run mount (resolves m n p evs)) =
     (case (if truthy p then render_loaded p else Inr empty_view) of
        Inl e \<Rightarrow> Inl e
      | Inr t \<Rightarrow> if mountable t then Inr t else Inl InvalidChild)"
  by (simp add: rendered_def User_resolved)

lemma shown_street_lines_rendered:
  "User w = Inr t \<Longrightarrow> street_lines t = [] \<Longrightarrow> shown_street_lines (rendered w) = []"
  by (simp add: rendered_def)

section \<open>The claims\<close>

text \<open>
  C1, amended. Take any state in which the component shows a loaded user (not loading, the
  stored value truthy) whose \<^verbatim>\<open>address\<close> is present, neither \<^verbatim>\<open>null\<close> nor
  \<^verbatim>\<open>undefined\<close>, and whose \<^verbatim>\<open>id\<close>, \<^verbatim>\<open>firstName\<close>, \<^verbatim>\<open>lastName\<close> and
  \<^verbatim>\<open>address.street\<close> are values React can render (no plain object, no array holding
  one). Any of \<^verbatim>\<open>street\<close>, \<^verbatim>\<open>city\<close>, \<^verbatim>\<open>state\<close>, \<^verbatim>\<open>zip\<close> may be absent from the
  address or \<^verbatim>\<open>undefined\<close> in it. The render raises no fault, neither in the component
  body nor in React: a tree is rendered. The tree has a street line exactly when
  \<^verbatim>\<open>address.street\<close> is truthy, and the line then shows that value.
\<close>

theorem C1_renderable_user_renders:
  assumes "\<not> isLoading w" and "truthy (user w)"
    and "get_prop (user w) ''address'' = Inr a" and "a \<noteq> Undefined" and "a \<noteq> Null"
    and "get_prop (user w) ''id'' = Inr i" and "renderable i"
    and "get_prop (user w) ''firstName'' = Inr f" and "renderable f"
    and "get_prop (user w) ''lastName'' = Inr l" and "renderable l"
    and "get_prop a ''street'' = Inr s" and "renderable s"
  shows "\<exists>t. rendered w = Inr t \<and> User w = Inr t
           \<and> street_lines t = (if truthy s then [Elem ''p'' [Text ''Address: '', Val s]] else [])"
proof -
  from assms(3,12) have "address_street (user w) = Inr s"
    by (simp add: address_street_def)
  with assms(6,8,10) have "render_loaded (user w) =
      Inr (loaded_view i f l (if truthy s then street_line s else Val s))"
    by (rule render_loaded_value)
  with assms(1,2) have u: "User w = Inr (loaded_view i f l (if truthy s then street_line s else Val s))"
    by (simp add: User_def)
  have "mountable (loaded_view i f l (if truthy s then street_line s else Val s))"
    using assms(7,9,11,13) by (simp only: mountable_loaded_view)
  with u have r: "rendered w = Inr (loaded_view i f l (if truthy s then street_line s else Val s))"
    by (simp add: rendered_def)
  have "street_lines (loaded_view i f l (if truthy s then street_line s else Val s)) =
      (if truthy s then [Elem ''p'' [Text ''Address: '', Val s]] else [])"
    by (simp add: street_lines_loaded_view street_line_def)
  with u r show ?thesis by blast
qed

theorem C1_renderable_user_renders_witness:
  "\<not> isLoading \<lparr>user = JObj [(''id'', JStr ''1''), (''firstName'', JStr ''Ada''),
                    (''lastName'', JStr ''Lovelace''),
                    (''address'', JObj [(''city'', JStr ''London''), (''zip'', Undefined)])],
        isLoading = False, effect_ran = True, requests = [''/api/user''],
        pending = Finished, unhandled = []\<rparr>
   \<and> truthy (JObj [(''id'', JStr ''1''), (''firstName'', JStr ''Ada''),
                    (''lastName'', JStr ''Lovelace''),
                    (''address'', JObj [(''city'', JStr ''London''), (''zip'', Undefined)])])
   \<and> get_prop (JObj [(''id'', JStr ''1''), (''firstName'', JStr ''Ada''),
                    (''lastName'', JStr ''Lovelace''),
                    (''address'', JObj [(''city'', JStr ''London''), (''zip'', Undefined)])])
        ''address'' = Inr (JObj [(''city'', JStr ''London''), (''zip'', Undefined)])
   \<and> JObj [(''city'', JStr ''London''), (''zip'', Undefined)] \<noteq> Undefined
   \<and> JObj [(''city'', JStr ''London''), (''zip'', Undefined)] \<noteq> Null
   \<and> renderable (JStr ''1'') \<and> renderable (JStr ''Ada'') \<and> renderable (JStr ''Lovelace'')
   \<and> get_prop (JObj [(''city'', JStr ''London''), (''zip'', Undefined)]) ''street'' = Inr Undefined
   \<and> renderable Undefined
   \<and> rendered \<lparr>user = JObj [(''id'', JStr ''1''), (''firstName'', JStr ''Ada''),
                    (''lastName'', JStr ''Lovelace''),
                    (''address'', JObj [(''city'', JStr ''London''), (''zip'', Undefined)])],
        isLoading = False, effect_ran = True, requests = [''/api/user''],
        pending = Finished, unhandled = []\<rparr>
      = Inr (Elem ''div''
               [Elem ''h1'' [Text ''User Info''],
                Elem ''p'' [Text ''ID: '', Val (JStr ''1'')],
                Elem ''p'' [Text ''Name: '', Val (JStr ''Ada'')],
                Elem ''p'' [Text ''Name: '', Val (JStr ''Lovelace'')],
                Val Undefined])"
  using C1_renderable_user_renders
    [of "\<lparr>user = JObj [(''id'', JStr ''1''), (''firstName'', JStr ''Ada''),
                    (''lastName'', JStr ''Lovelace''),
                    (''address'', JObj [(''city'', JStr ''London''), (''zip'', Undefined)])],
        isLoading = False, effect_ran = True, requests = [''/api/user''],
        pending = Finished, unhandled = []\<rparr>"
        "JObj [(''city'', JStr ''London''), (''zip'', Undefined)]"
        "JStr ''1''" "JStr ''Ada''" "JStr ''Lovelace''" Undefined]
  by (simp add: rendered_def User_def render_loaded_def address_street_def loaded_view_def)

text \<open>
  The stored value
  \<^verbatim>\<open>{id: "1", firstName: "A", lastName: {n: "B"}, address: {city: "London"}}\<close> is a
  loaded user whose address lacks \<^verbatim>\<open>street\<close>, \<^verbatim>\<open>state\<close> and \<^verbatim>\<open>zip\<close>. The read
  \<^verbatim>\<open>user.address.street\<close> succeeds, but \<^verbatim>\<open>lastName\<close> is a plain object in child
  position and the render faults.
\<close>

theorem C1_counterexample:
  "\<not> isLoading \<lparr>user = JObj [(''id'', JStr ''1''), (''firstName'', JStr ''A''),
                    (''lastName'', JObj [(''n'', JStr ''B'')]),
                    (''address'', JObj [(''city'', JStr ''London'')])],
        isLoading = False, effect_ran = True, requests = [''/api/user''],
        pending = Finished, unhandled = []\<rparr>
   \<and> truthy (JObj [(''id'', JStr ''1''), (''firstName'', JStr ''A''),
                    (''lastName'', JObj [(''n'', JStr ''B'')]),
                    (''address'', JObj [(''city'', JStr ''London'')])])
   \<and> address_street (JObj [(''id'', JStr ''1''), (''firstName'', JStr ''A''),
                    (''lastName'', JObj [(''n'', JStr ''B'')]),
                    (''address'', JObj [(''city'', JStr ''London'')])]) = Inr Undefined
   \<and> rendered \<lparr>user = JObj [(''id'', JStr ''1''), (''firstName'', JStr ''A''),
                    (''lastName'', JObj [(''n'', JStr ''B'')]),
                    (''address'', JObj [(''city'', JStr ''London'')])],
        isLoading = False, effect_ran = True, requests = [''/api/user''],
        pending = Finished, unhandled = []\<rparr> = Inl InvalidChild"
  by (simp add: rendered_def User_def render_loaded_def address_street_def loaded_view_def)

text \<open>
  C2. When the fetch resolves to \<^verbatim>\<open>null\<close> or \<^verbatim>\<open>undefined\<close>, the component ends in
  the Empty state and renders the message \<^verbatim>\<open>No user found\<close>, whatever re-renders
  happen in between and whatever happens afterwards.
\<close>

theorem C2_nullish_payload_is_empty:
  "p = Null \<or> p = Undefined \<Longrightarrow>
     \<not> isLoading (run mount (resolves a b p evs))
     \<and> User (run mount (resolves a b p evs)) = Inr (Elem ''div'' [Text ''No user found''])"
  by (auto simp add: run_resolves User_def empty_view_def)

theorem C2_nullish_payload_is_empty_witness:
  "(Null = Null \<or> Null = Undefined)
   \<and> \<not> isLoading (run mount (resolves 1 2 Null [Rerender]))
   \<and> User (run mount (resolves 1 2 Null [Rerender])) = Inr (Elem ''div'' [Text ''No user found''])"
  using C2_nullish_payload_is_empty [of Null 1 2 "[Rerender]"] by simp

text \<open>
  C3, amended. When the fetch resolves to a truthy payload whose \<^verbatim>\<open>address\<close> is neither
  \<^verbatim>\<open>null\<close> nor \<^verbatim>\<open>undefined\<close> and whose \<^verbatim>\<open>id\<close>, \<^verbatim>\<open>firstName\<close>,
  \<^verbatim>\<open>lastName\<close> and \<^verbatim>\<open>address.street\<close> are values React can render (no plain
  object, no array holding one), the component ends in the Loaded state and the rendered
  tree shows the values of \<^verbatim>\<open>id\<close>, \<^verbatim>\<open>firstName\<close> and \<^verbatim>\<open>lastName\<close> exactly as the
  payload has them, with no test on them: an absent field is shown as the value
  \<^verbatim>\<open>undefined\<close>.
\<close>

theorem C3_renderable_payload_is_loaded:
  assumes "truthy p" and "get_prop p ''address'' = Inr a" and "a \<noteq> Undefined" and "a \<noteq> Null"
    and "get_prop p ''id'' = Inr i" and "renderable i"
    and "get_prop p ''firstName'' = Inr f" and "renderable f"
    and "get_prop p ''lastName'' = Inr l" and "renderable l"
    and "get_prop a ''street'' = Inr s" and "renderable s"
  shows "\<not> isLoading (run mount (resolves m n p evs))
         \<and> user (run mount (resolves m n p evs)) = p
         \<and> rendered (run mount (resolves m n p evs)) =
               Inr (Elem ''div''
                      [Elem ''h1'' [Text ''User Info''],
                       Elem ''p'' [Text ''ID: '', Val i],
                       Elem ''p'' [Text ''Name: '', Val f],
                       Elem ''p'' [Text ''Name: '', Val l],
                       (if truthy s then Elem ''p'' [Text ''Address: '', Val s] else Val s)])"
proof -
  from assms(2,11) have "address_street p = Inr s"
    by (simp add: address_street_def)
  with assms(5,7,9) have v: "render_loaded p =
      Inr (loaded_view i f l (if truthy s then street_line s else Val s))"
    by (rule render_loaded_value)
  have "mountable (loaded_view i f l (if truthy s then street_line s else Val s))"
    using assms(6,8,10,12) by (simp only: mountable_loaded_view)
  with v assms(1) have "rendered (run mount (resolves m n p evs)) =
      Inr (loaded_view i f l (if truthy s then street_line s else Val s))"
    by (simp add: rendered_resolved)
  then have "rendered (run mount (resolves m n p evs)) =
               Inr (Elem ''div''
                      [Elem ''h1'' [Text ''User Info''],
                       Elem ''p'' [Text ''ID: '', Val i],
                       Elem ''p'' [Text ''Name: '', Val f],
                       Elem ''p'' [Text ''Name: '', Val l],
                       (if truthy s then Elem ''p'' [Text ''Address: '', Val s] else Val s)])"
    by (simp add: loaded_view_def street_line_def)
  moreover have "\<not> isLoading (run mount (resolves m n p evs))"
    and "user (run mount (resolves m n p evs)) = p"
    by (simp_all add: run_resolves)
  ultimately show ?thesis by blast
qed

theorem C3_renderable_payload_is_loaded_witness:
  "truthy (JObj [(''id'', JNum (Fin 2)), (''address'', JObj [])])
   \<and> get_prop (JObj [(''id'', JNum (Fin 2)), (''address'', JObj [])]) ''address'' = Inr (JObj [])
   \<and> JObj [] \<noteq> Undefined \<and> JObj [] \<noteq> Null
   \<and> get_prop (JObj [(''id'', JNum (Fin 2)), (''address'', JObj [])]) ''id'' = Inr (JNum (Fin 2))
   \<and> renderable (JNum (Fin 2))
   \<and> get_prop (JObj [(''id'', JNum (Fin 2)), (''address'', JObj [])]) ''firstName'' = Inr Undefined
   \<and> get_prop (JObj [(''id'', JNum (Fin 2)), (''address'', JObj [])]) ''lastName'' = Inr Undefined
   \<and> renderable Undefined
   \<and> get_prop (JObj []) ''street'' = Inr Undefined
   \<and> rendered (run mount (resolves 1 0 (JObj [(''id'', JNum (Fin 2)), (''address'', JObj [])]) [])) =
       Inr (Elem ''div''
              [Elem ''h1'' [Text ''User Info''],
               Elem ''p'' [Text ''ID: '', Val (JNum (Fin 2))],
               Elem ''p'' [Text ''Name: '', Val Undefined],
               Elem ''p'' [Text ''Name: '', Val Undefined],
               Val Undefined])"
  using C3_renderable_payload_is_loaded
    [of "JObj [(''id'', JNum (Fin 2)), (''address'', JObj [])]" "JObj []"
        "JNum (Fin 2)" Undefined Undefined Undefined 1 0 "[]"]
  by simp

text \<open>
  The payload \<^verbatim>\<open>{id: "7", firstName: "Alan", lastName: "Turing", address: null}\<close> is
  truthy, and the render that follows it throws at \<^verbatim>\<open>user.address.street\<close>: a truthy
  payload does not always end in a rendered Loaded state.
\<close>

theorem C3_counterexample:
  "truthy (JObj [(''id'', JStr ''7''), (''firstName'', JStr ''Alan''),
                 (''lastName'', JStr ''Turing''), (''address'', Null)])
   \<and> User (run mount (resolves 0 0
        (JObj [(''id'', JStr ''7''), (''firstName'', JStr ''Alan''),
               (''lastName'', JStr ''Turing''), (''address'', Null)]) []))
      = Inl TypeError
   \<and> rendered (run mount (resolves 0 0
        (JObj [(''id'', JStr ''7''), (''firstName'', JStr ''Alan''),
               (''lastName'', JStr ''Turing''), (''address'', Null)]) []))
      = Inl TypeError"
  by (simp add: rendered_def User_resolved render_loaded_def address_street_def)

text \<open>
  C4, amended. For a loaded payload, when \<^verbatim>\<open>address.street\<close> is falsy (absent, so
  \<^verbatim>\<open>undefined\<close>, or the empty string, or any other falsy value) the component returns
  a tree with no street line and the rendered output has none. When it is a non-empty
  string, and \<^verbatim>\<open>id\<close>, \<^verbatim>\<open>firstName\<close> and \<^verbatim>\<open>lastName\<close> are values React can render
  (no plain object, no array holding one), the rendered tree has one street line, showing
  exactly that string. Where the read of \<^verbatim>\<open>address.street\<close> throws, the render throws
  the same error. The payload of scenario A, with the empty string as street, renders the
  heading, \<^verbatim>\<open>ID: 1\<close>, \<^verbatim>\<open>Name: Ada\<close>, \<^verbatim>\<open>Name: Lovelace\<close> and, as last child, the
  empty string itself: no street line.
\<close>

theorem C4_street_line_rendered:
  assumes "truthy p"
  shows "(\<forall>s. address_street p = Inr s \<and> \<not> truthy s \<longrightarrow>
            (\<exists>t. User (run mount (resolves m n p evs)) = Inr t \<and> street_lines t = [])
            \<and> shown_street_lines (rendered (run mount (resolves m n p evs))) = [])
         \<and> (\<forall>x i f l. address_street p = Inr (JStr x) \<and> x \<noteq> []
               \<and> get_prop p ''id'' = Inr i \<and> renderable i
               \<and> get_prop p ''firstName'' = Inr f \<and> renderable f
               \<and> get_prop p ''lastName'' = Inr l \<and> renderable l \<longrightarrow>
            (\<exists>t. rendered (run mount (resolves m n p evs)) = Inr t
               \<and> street_lines t = [Elem ''p'' [Text ''Address: '', Val (JStr x)]]))
         \<and> (\<forall>e. address_street p = Inl e \<longrightarrow>
            User (run mount (resolves m n p evs)) = Inl e
            \<and> rendered (run mount (resolves m n p evs)) = Inl e)
         \<and> rendered (run mount (resolves m n
               (JObj [(''id'', JStr ''1''), (''firstName'', JStr ''Ada''),
                      (''lastName'', JStr ''Lovelace''),
                      (''address'', JObj [(''street'', JStr []), (''city'', JStr ''London''),
                                          (''state'', JStr []), (''zip'', JStr [])])]) evs)) =
             Inr (Elem ''div''
                    [Elem ''h1'' [Text ''User Info''],
                     Elem ''p'' [Text ''ID: '', Val (JStr ''1'')],
                     Elem ''p'' [Text ''Name: '', Val (JStr ''Ada'')],
                     Elem ''p'' [Text ''Name: '', Val (JStr ''Lovelace'')],
                     Val (JStr [])])"
proof -
  let ?W = "run mount (resolves m n p evs)"
  from assms obtain i0 f0 l0 where ps: "get_prop p ''id'' = Inr i0"
    "get_prop p ''firstName'' = Inr f0" "get_prop p ''lastName'' = Inr l0"
    using get_prop_truthy by meson
  have view: "User ?W = Inr (loaded_view i0 f0 l0 (if truthy s then street_line s else Val s))"
    if "address_street p = Inr s" for s
    using assms render_loaded_value [OF ps that] by (simp add: User_resolved)
  have falsy: "(\<exists>t. User ?W = Inr t \<and> street_lines t = [])
      \<and> shown_street_lines (rendered ?W) = []"
    if "address_street p = Inr s" and "\<not> truthy s" for s
  proof -
    have u: "User ?W = Inr (loaded_view i0 f0 l0 (Val s))"
      using view [OF that(1)] that(2) by simp
    have n: "street_lines (loaded_view i0 f0 l0 (Val s)) = []"
      using street_lines_loaded_view [of i0 f0 l0 s] that(2) by simp
    from u n have "shown_street_lines (rendered ?W) = []"
      by (rule shown_street_lines_rendered)
    with u n show ?thesis by blast
  qed
  have string: "\<exists>t. rendered ?W = Inr t
      \<and> street_lines t = [Elem ''p'' [Text ''Address: '', Val (JStr x)]]"
    if "address_street p = Inr (JStr x)" and "x \<noteq> []"
      and "get_prop p ''id'' = Inr i" and "renderable i"
      and "get_prop p ''firstName'' = Inr f" and "renderable f"
      and "get_prop p ''lastName'' = Inr l" and "renderable l" for x i f l
  proof -
    from ps that(3,5,7) have eq: "i0 = i" "f0 = f" "l0 = l" by simp_all
    have u: "User ?W = Inr (loaded_view i f l (street_line (JStr x)))"
      using view [OF that(1)] that(2) eq by simp
    have "mountable (loaded_view i f l (street_line (JStr x)))"
      using that(4,6,8) by (simp add: loaded_view_def street_line_def)
    with u have "rendered ?W = Inr (loaded_view i f l (street_line (JStr x)))"
      by (simp add: rendered_def)
    moreover have "street_lines (loaded_view i f l (street_line (JStr x))) =
        [Elem ''p'' [Text ''Address: '', Val (JStr x)]]"
      by (simp add: loaded_view_def street_line_def)
    ultimately show ?thesis by blast
  qed
  have fault: "User ?W = Inl e \<and> rendered ?W = Inl e"
    if "address_street p = Inl e" for e
    using assms render_loaded_fault [OF assms that] by (simp add: rendered_def User_resolved)
  have scenario: "rendered (run mount (resolves m n
               (JObj [(''id'', JStr ''1''), (''firstName'', JStr ''Ada''),
                      (''lastName'', JStr ''Lovelace''),
                      (''address'', JObj [(''street'', JStr []), (''city'', JStr ''London''),
                                          (''state'', JStr []), (''zip'', JStr [])])]) evs)) =
             Inr (Elem ''div''
                    [Elem ''h1'' [Text ''User Info''],
                     Elem ''p'' [Text ''ID: '', Val (JStr ''1'')],
                     Elem ''p'' [Text ''Name: '', Val (JStr ''Ada'')],
                     Elem ''p'' [Text ''Name: '', Val (JStr ''Lovelace'')],
                     Val (JStr [])])"
    by (simp add: rendered_resolved render_loaded_def address_street_def loaded_view_def)
  from falsy string fault scenario show ?thesis by blast
qed

theorem C4_street_line_rendered_witness:
  "truthy (JObj [(''id'', JStr ''2''), (''firstName'', JStr ''Grace''),
                 (''lastName'', JStr ''Hopper''),
                 (''address'', JObj [(''street'', JStr ''1 Navy Yard''), (''city'', JStr ''DC''),
                                     (''state'', JStr ''DC''), (''zip'', JStr ''20001'')])])
   \<and> address_street (JObj [(''id'', JStr ''2''), (''firstName'', JStr ''Grace''),
                 (''lastName'', JStr ''Hopper''),
                 (''address'', JObj [(''street'', JStr ''1 Navy Yard''), (''city'', JStr ''DC''),
                                     (''state'', JStr ''DC''), (''zip'', JStr ''20001'')])])
       = Inr (JStr ''1 Navy Yard'')
   \<and> ''1 Navy Yard'' \<noteq> []
   \<and> renderable (JStr ''2'') \<and> renderable (JStr ''Grace'') \<and> renderable (JStr ''Hopper'')
   \<and> rendered (run mount (resolves 0 0 (JObj [(''id'', JStr ''2''), (''firstName'', JStr ''Grace''),
                 (''lastName'', JStr ''Hopper''),
                 (''address'', JObj [(''street'', JStr ''1 Navy Yard''), (''city'', JStr ''DC''),
                                     (''state'', JStr ''DC''), (''zip'', JStr ''20001'')])]) []))
       = Inr (Elem ''div''
                [Elem ''h1'' [Text ''User Info''],
                 Elem ''p'' [Text ''ID: '', Val (JStr ''2'')],
                 Elem ''p'' [Text ''Name: '', Val (JStr ''Grace'')],
                 Elem ''p'' [Text ''Name: '', Val (JStr ''Hopper'')],
                 Elem ''p'' [Text ''Address: '', Val (JStr ''1 Navy Yard'')]])
   \<and> truthy (JObj [(''address'', JObj [(''city'', JStr ''London'')])])
   \<and> address_street (JObj [(''address'', JObj [(''city'', JStr ''London'')])]) = Inr Undefined
   \<and> \<not> truthy Undefined
   \<and> rendered (run mount (resolves 0 0 (JObj [(''address'', JObj [(''city'', JStr ''London'')])]) []))
       = Inr (Elem ''div''
                [Elem ''h1'' [Text ''User Info''],
                 Elem ''p'' [Text ''ID: '', Val Undefined],
                 Elem ''p'' [Text ''Name: '', Val Undefined],
                 Elem ''p'' [Text ''Name: '', Val Undefined],
                 Val Undefined])
   \<and> truthy (JNum (Fin 42))
   \<and> address_street (JNum (Fin 42)) = Inl TypeError
   \<and> rendered (run mount (resolves 0 0 (JNum (Fin 42)) [])) = Inl TypeError"
  using C4_street_line_rendered
    [of "JObj [(''id'', JStr ''2''), (''firstName'', JStr ''Grace''),
                 (''lastName'', JStr ''Hopper''),
                 (''address'', JObj [(''street'', JStr ''1 Navy Yard''), (''city'', JStr ''DC''),
                                     (''state'', JStr ''DC''), (''zip'', JStr ''20001'')])]" 0 0 "[]"]
    C4_street_line_rendered [of "JObj [(''address'', JObj [(''city'', JStr ''London'')])]" 0 0 "[]"]
    C4_street_line_rendered [of "JNum (Fin 42)" 0 0 "[]"]
  by (simp add: rendered_resolved render_loaded_def address_street_def loaded_view_def
      street_line_def)

text \<open>
  The payload
  \<^verbatim>\<open>{id: {n: 1}, firstName: "A", lastName: "B", address: {street: "S"}}\<close> is loaded
  and its street is the non-empty string \<^verbatim>\<open>S\<close>, but \<^verbatim>\<open>id\<close> is a plain object in
  child position: the render faults and the output has no street line.
\<close>

theorem C4_counterexample:
  "truthy (JObj [(''id'', JObj [(''n'', JNum (Fin 1))]), (''firstName'', JStr ''A''),
                 (''lastName'', JStr ''B''), (''address'', JObj [(''street'', JStr ''S'')])])
   \<and> address_street (JObj [(''id'', JObj [(''n'', JNum (Fin 1))]), (''firstName'', JStr ''A''),
                 (''lastName'', JStr ''B''), (''address'', JObj [(''street'', JStr ''S'')])])
       = Inr (JStr ''S'')
   \<and> ''S'' \<noteq> []
   \<and> rendered (run mount (resolves 0 0
        (JObj [(''id'', JObj [(''n'', JNum (Fin 1))]), (''firstName'', JStr ''A''),
               (''lastName'', JStr ''B''), (''address'', JObj [(''street'', JStr ''S'')])]) []))
       = Inl InvalidChild
   \<and> shown_street_lines (rendered (run mount (resolves 0 0
        (JObj [(''id'', JObj [(''n'', JNum (Fin 1))]), (''firstName'', JStr ''A''),
               (''lastName'', JStr ''B''), (''address'', JObj [(''street'', JStr ''S'')])]) [])))
       = []"
  by (simp add: rendered_resolved render_loaded_def address_street_def loaded_view_def
      street_line_def)

text \<open>
  C5. On the initial render the component is in the Loading state and returns the loading
  indicator and nothing else; it still does after the effect has issued the request, for
  any number of re-renders before the request settles.
\<close>

theorem C5_initial_render_is_loading:
  "User initial = Inr (Elem ''div'' [Text ''Loading...''])
   \<and> isLoading (run mount (replicate n Rerender))
   \<and> User (run mount (replicate n Rerender)) = Inr (Elem ''div'' [Text ''Loading...''])"
proof -
  have "run mount (replicate n Rerender) = mount"
    by (rule run_rerenders) (simp add: mount_eq)
  then show ?thesis
    by (simp add: User_def initial_def mount_eq loading_view_def)
qed

text \<open>
  C6. A mount issues one request, to \<^verbatim>\<open>/api/user\<close>, and no sequence of later events
  (re-renders, settlements, the state change when the data arrives) issues another.
\<close>

theorem C6_one_request_per_mount:
  "requests initial = [] \<and> requests mount = [''/api/user'']
   \<and> requests (run mount evs) = [''/api/user'']"
proof -
  have "effect_ran mount" by (simp add: mount_eq)
  then have "requests (run mount evs) = requests mount" by (rule run_keeps_requests)
  then show ?thesis by (simp add: mount_eq initial_def)
qed

text \<open>
  C7. Nothing in the fetch cycle handles a fault: when the request is rejected, or the
  body fails to parse, the error is the one unhandled rejection of the execution.
\<close>

theorem C7_rejection_is_unhandled:
  "unhandled mount = []
   \<and> unhandled (run mount (request_rejects a e evs)) = [e]
   \<and> unhandled (run mount (parse_fails a b e evs)) = [e]"
proof -
  have "unhandled mount = []"
    by (simp add: mount_eq)
  then show ?thesis
    by (simp add: run_request_rejects run_parse_fails)
qed

text \<open>
  C8. For a truthy payload whose \<^verbatim>\<open>address\<close> is absent (or \<^verbatim>\<open>null\<close>), the read
  \<^verbatim>\<open>user.address.street\<close> throws a \<^verbatim>\<open>TypeError\<close> and so does the render of the
  Loaded state. The payload \<^verbatim>\<open>{id: "1", firstName: "A", lastName: "B"}\<close> is one.
\<close>

theorem C8_absent_address_faults:
  assumes "truthy p" and "get_prop p ''address'' = Inr a" and "a = Undefined \<or> a = Null"
  shows "address_street p = Inl TypeError
         \<and> \<not> isLoading (run mount (resolves m n p evs))
         \<and> User (run mount (resolves m n p evs)) = Inl TypeError"
proof -
  from assms(2,3) have s: "address_street p = Inl TypeError"
    by (auto simp add: address_street_def)
  with assms(1) have "render_loaded p = Inl TypeError"
    by (simp add: render_loaded_fault)
  with assms(1) s show ?thesis
    by (simp add: run_resolves User_def)
qed

theorem C8_absent_address_faults_witness:
  "truthy (JObj [(''id'', JStr ''1''), (''firstName'', JStr ''A''), (''lastName'', JStr ''B'')])
   \<and> get_prop (JObj [(''id'', JStr ''1''), (''firstName'', JStr ''A''), (''lastName'', JStr ''B'')])
        ''address'' = Inr Undefined
   \<and> address_street (JObj [(''id'', JStr ''1''), (''firstName'', JStr ''A''), (''lastName'', JStr ''B'')])
        = Inl TypeError
   \<and> User (run mount (resolves 0 0
        (JObj [(''id'', JStr ''1''), (''firstName'', JStr ''A''), (''lastName'', JStr ''B'')]) []))
        = Inl TypeError"
  using C8_absent_address_faults
    [of "JObj [(''id'', JStr ''1''), (''firstName'', JStr ''A''), (''lastName'', JStr ''B'')]"
        Undefined 0 0 "[]"]
  by simp

text \<open>
  C9. When the request is rejected, or the body fails to parse, the failed cycle writes no
  state: \<^verbatim>\<open>isLoading\<close> is still true and \<^verbatim>\<open>user\<close> still \<^verbatim>\<open>null\<close>, and the
  component renders the loading indicator after every later event.
\<close>

theorem C9_rejection_leaves_loading:
  "isLoading (run mount (request_rejects a e evs))
   \<and> user (run mount (request_rejects a e evs)) = Null
   \<and> User (run mount (request_rejects a e evs)) = Inr (Elem ''div'' [Text ''Loading...''])
   \<and> isLoading (run mount (parse_fails a b e evs))
   \<and> user (run mount (parse_fails a b e evs)) = Null
   \<and> User (run mount (parse_fails a b e evs)) = Inr (Elem ''div'' [Text ''Loading...''])"
  by (simp add: run_request_rejects run_parse_fails User_def loading_view_def)

text \<open>
  C10. When the fetch resolves to any falsy payload, the component ends in the Empty state
  and renders \<^verbatim>\<open>No user found\<close>. The test is truthiness: \<^verbatim>\<open>0\<close>, the empty
  string, \<^verbatim>\<open>false\<close> and \<^verbatim>\<open>NaN\<close> are falsy and are neither \<^verbatim>\<open>null\<close> nor
  \<^verbatim>\<open>undefined\<close>.
\<close>

theorem C10_falsy_payload_is_empty:
  "(\<not> truthy p \<longrightarrow>
      \<not> isLoading (run mount (resolves a b p evs))
      \<and> User (run mount (resolves a b p evs)) = Inr (Elem ''div'' [Text ''No user found'']))
   \<and> \<not> truthy (JNum (Fin 0)) \<and> \<not> truthy (JStr []) \<and> \<not> truthy (JBool False)
   \<and> \<not> truthy (JNum NaN)
   \<and> {JNum (Fin 0), JStr [], JBool False, JNum NaN} \<inter> {Null, Undefined} = {}"
  by (simp add: run_resolves User_def empty_view_def)

theorem C10_falsy_payload_is_empty_witness:
  "\<not> truthy (JNum (Fin 0))
   \<and> User (run mount (resolves 0 0 (JNum (Fin 0)) [])) = Inr (Elem ''div'' [Text ''No user found''])
   \<and> \<not> truthy (JStr [])
   \<and> User (run mount (resolves 0 0 (JStr []) [])) = Inr (Elem ''div'' [Text ''No user found''])
   \<and> \<not> truthy (JBool False)
   \<and> User (run mount (resolves 0 0 (JBool False) [])) = Inr (Elem ''div'' [Text ''No user found''])
   \<and> \<not> truthy (JNum NaN)
   \<and> User (run mount (resolves 0 0 (JNum NaN) [])) = Inr (Elem ''div'' [Text ''No user found''])"
  using C10_falsy_payload_is_empty [of "JNum (Fin 0)" 0 0 "[]"]
    C10_falsy_payload_is_empty [of "JStr []" 0 0 "[]"]
    C10_falsy_payload_is_empty [of "JBool False" 0 0 "[]"]
    C10_falsy_payload_is_empty [of "JNum NaN" 0 0 "[]"]
  by simp

end
